theory Spec2Isabelle
  imports Main
begin

section \<open>Record model (internal/models)\<close>

text \<open>
  A \<open>time.Duration\<close> is a signed 64-bit count of nanoseconds; it is modelled as an
  \<open>int\<close>, and the one operation that can leave the 64-bit range, \<open>Time.Sub\<close>,
  has its saturation written out. A \<open>time.Time\<close> is modelled by its wall-clock instant
  (nanoseconds since the Unix epoch) and its location.
\<close>

type_synonym duration = int

datatype zone = UTC | Local

record gotime =
  nanos :: int
  zone :: zone

definition minDuration :: duration where
  "minDuration = - (2 ^ 63)"

definition maxDuration :: duration where
  "maxDuration = 2 ^ 63 - 1"

text \<open>\<open>t.Sub(u)\<close>: the difference, saturated to the range of a duration.\<close>

definition time_Sub :: "gotime \<Rightarrow> gotime \<Rightarrow> duration" where
  "time_Sub t u =
     (let d = nanos t - nanos u
      in if d < minDuration then minDuration
         else if maxDuration < d then maxDuration
         else d)"

text \<open>\<open>t.UTC()\<close>: the same instant with the location set to UTC.\<close>

definition time_UTC :: "gotime \<Rightarrow> gotime" where
  "time_UTC t = t\<lparr>zone := UTC\<rparr>"

text \<open>The zero \<open>time.Time\<close>: January 1, year 1, 00:00:00 UTC.\<close>

definition zero_time :: gotime where
  "zero_time = \<lparr>nanos = - 62135596800 * 1000000000, zone = UTC\<rparr>"

text \<open>\<open>PresenceStatus\<close> is a string type with four named constants.\<close>

definition StatusOnline :: string where "StatusOnline = ''online''"
definition StatusAway :: string where "StatusAway = ''away''"
definition StatusBusy :: string where "StatusBusy = ''busy''"
definition StatusOffline :: string where "StatusOffline = ''offline''"

definition IsValid :: "string \<Rightarrow> bool" where
  "IsValid ps =
     (if ps = StatusOnline \<or> ps = StatusAway \<or> ps = StatusBusy \<or> ps = StatusOffline
      then True else False)"

record presence =
  UserID :: string
  Status :: string
  Message :: string
  LastSeen :: gotime
  UpdatedAt :: gotime
  NodeID :: string
  TTL :: duration

text \<open>The zero value \<open>models.Presence{}\<close>.\<close>

definition zero_presence :: presence where
  "zero_presence =
     \<lparr>UserID = [], Status = [], Message = [], LastSeen = zero_time,
      UpdatedAt = zero_time, NodeID = [], TTL = 0\<rparr>"

text \<open>
  \<open>Validate\<close> returns an error (here: its message) or nil (here: \<open>None\<close>); the three
  checks are made in the order of the source.
\<close>

definition Validate :: "presence \<Rightarrow> string option" where
  "Validate p =
     (if UserID p = [] then Some ''user_id is required''
      else if \<not> IsValid (Status p) then Some ''invalid status''
      else if NodeID p = [] then Some ''node_id is required''
      else None)"


section \<open>Environment and state\<close>

text \<open>
  The service runs against three things outside the repository: the wall clock, the
  cache library (Ristretto) and the broker's key-value bucket (JetStream KV), and it
  uses the JSON codec of the standard library. What they answer is not decided by the
  code of the repository, so the model takes it from an environment:
  \<^item> \<open>clock\<close>: the successive readings of the wall clock, in nanoseconds;
  \<^item> \<open>admission\<close>: for the n-th \<open>Set\<close> the cache library receives, whether it admits
    the item (\<open>None\<close>: rejected) and which keys it evicts to make room;
  \<^item> \<open>json_Marshal\<close>, \<open>json_Unmarshal\<close>: the codec, \<open>None\<close> on an error;
  \<^item> \<open>range_rank\<close>: Go leaves the order of a \<open>range\<close> over a map unspecified; the
    model visits the keys sorted by this ranking, so every order is the order of some
    environment.
\<close>

record env =
  clock :: "nat \<Rightarrow> int"
  admission :: "nat \<Rightarrow> string list option"
  json_Marshal :: "presence \<Rightarrow> string option"
  json_Unmarshal :: "string \<Rightarrow> presence option"
  range_rank :: "string \<Rightarrow> nat"

text \<open>
  A cached value is an \<open>interface{}\<close>: a presence, or something else (which only a
  caller that reaches the library directly can store).
\<close>

datatype cval = CPresence presence | COther int

text \<open>The requests the two libraries receive, in the order they receive them.\<close>

datatype rist_req = RGet string | RSet string cval int | RDel string | RWait

datatype kv_req = KVGet string | KVPut string string

text \<open>
  An error of the KV layer: whether \<open>errors.Is(err, jetstream.ErrKeyNotFound)\<close> holds,
  and the text of \<open>err.Error()\<close>.
\<close>

datatype kv_error = KvError (is_ErrKeyNotFound: bool) (err_text: string)

text \<open>
  The state: how many clock readings and cache \<open>Set\<close>s have happened, the contents and
  the request log of the cache library, and the bucket. \<open>bucket w key\<close> is what
  \<open>kv.Get(ctx, key)\<close> returns: an error, or an entry (\<open>Some\<close> of its value, \<open>None\<close> for a
  nil entry); \<open>put_fault w key\<close> is the error of \<open>kv.Put\<close> for that key, if it fails.
\<close>

record world =
  ticks :: nat
  nsets :: nat
  items :: "string \<rightharpoonup> cval"
  rist_log :: "rist_req list"
  bucket :: "string \<Rightarrow> kv_error + string option"
  put_fault :: "string \<Rightarrow> kv_error option"
  kv_log :: "kv_req list"

subsection \<open>The clock\<close>

definition time_Now :: "env \<Rightarrow> world \<Rightarrow> gotime \<times> world" where
  "time_Now e w =
     (\<lparr>nanos = clock e (ticks w), zone = Local\<rparr>, w\<lparr>ticks := Suc (ticks w)\<rparr>)"

definition time_Since :: "env \<Rightarrow> world \<Rightarrow> gotime \<Rightarrow> duration \<times> world" where
  "time_Since e w t = (let (now, w1) = time_Now e w in (time_Sub now t, w1))"

text \<open>\<open>IsExpired\<close> (models): a zero TTL never expires, and the clock is not read then.\<close>

definition IsExpired :: "env \<Rightarrow> world \<Rightarrow> presence \<Rightarrow> bool \<times> world" where
  "IsExpired e w p =
     (if TTL p = 0 then (False, w)
      else let (since, w1) = time_Since e w (UpdatedAt p) in (TTL p < since, w1))"

subsection \<open>The cache library\<close>

text \<open>
  The library applies a \<open>Set\<close> by the time \<open>Wait\<close> returns; the wrapper calls \<open>Wait\<close>
  right after every \<open>Set\<close> and \<open>Delete\<close>, so the model applies a \<open>Set\<close> at once (when
  the admission policy accepts it) and \<open>Wait\<close> only leaves its mark in the log.
\<close>

definition rist_Get :: "world \<Rightarrow> string \<Rightarrow> cval option \<times> world" where
  "rist_Get w key = (items w key, w\<lparr>rist_log := rist_log w @ [RGet key]\<rparr>)"

definition evict :: "string list \<Rightarrow> (string \<rightharpoonup> cval) \<Rightarrow> (string \<rightharpoonup> cval)" where
  "evict victims m = foldr (\<lambda>k m'. m'(k := None)) victims m"

definition rist_Set :: "env \<Rightarrow> world \<Rightarrow> string \<Rightarrow> cval \<Rightarrow> int \<Rightarrow> world" where
  "rist_Set e w key v cost =
     (let w1 = w\<lparr>nsets := Suc (nsets w), rist_log := rist_log w @ [RSet key v cost]\<rparr>
      in case admission e (nsets w) of
           None \<Rightarrow> w1
         | Some victims \<Rightarrow> w1\<lparr>items := (evict victims (items w))(key \<mapsto> v)\<rparr>)"

definition rist_Del :: "world \<Rightarrow> string \<Rightarrow> world" where
  "rist_Del w key =
     w\<lparr>items := (items w)(key := None), rist_log := rist_log w @ [RDel key]\<rparr>"

definition rist_Wait :: "world \<Rightarrow> world" where
  "rist_Wait w = w\<lparr>rist_log := rist_log w @ [RWait]\<rparr>"

section \<open>Cache layer (internal/cache)\<close>

definition estimateCost :: "env \<Rightarrow> presence \<Rightarrow> int" where
  "estimateCost e p =
     (case json_Marshal e p of
        None \<Rightarrow> 200
      | Some data \<Rightarrow> int (length data) + 100)"

definition ristrettoCache_Get :: "env \<Rightarrow> world \<Rightarrow> string \<Rightarrow> (presence \<times> bool) \<times> world" where
  "ristrettoCache_Get e w userID =
     (let (val, w1) = rist_Get w userID
      in case val of
           None \<Rightarrow> ((zero_presence, False), w1)
         | Some (COther x) \<Rightarrow> ((zero_presence, False), rist_Del w1 userID)
         | Some (CPresence p) \<Rightarrow>
             if 0 < TTL p then
               (let (since, w2) = time_Since e w1 (UpdatedAt p)
                in if TTL p < since then ((zero_presence, False), rist_Del w2 userID)
                   else ((p, True), w2))
             else ((p, True), w1))"

definition ristrettoCache_Set :: "env \<Rightarrow> world \<Rightarrow> string \<Rightarrow> presence \<Rightarrow> duration \<Rightarrow> world" where
  "ristrettoCache_Set e w userID p ttl =
     (let cost = estimateCost e p;
          p1 = (if 0 < ttl then p\<lparr>TTL := ttl\<rparr> else p)
      in rist_Wait (rist_Set e w userID (CPresence p1) cost))"

definition ristrettoCache_Delete :: "world \<Rightarrow> string \<Rightarrow> world" where
  "ristrettoCache_Delete w userID = rist_Wait (rist_Del w userID)"

section \<open>Durable store (internal/nats)\<close>

fun HasPrefix :: "string \<Rightarrow> string \<Rightarrow> bool" where
  "HasPrefix s [] = True"
| "HasPrefix [] (c # sub) = False"
| "HasPrefix (x # s) (c # sub) = (x = c \<and> HasPrefix s sub)"

fun strings_Contains :: "string \<Rightarrow> string \<Rightarrow> bool" where
  "strings_Contains [] sub = (sub = [])"
| "strings_Contains (x # s) sub = (HasPrefix (x # s) sub \<or> strings_Contains s sub)"

text \<open>The errors of the store, one constructor for each message the source formats.\<close>

datatype store_error =
    ErrPresenceNotFound string
  | ErrGetFailed kv_error
  | ErrUnmarshal
  | ErrMarshal
  | ErrPutFailed kv_error

definition presenceKey :: "string \<Rightarrow> string" where
  "presenceKey userID = ''user.'' @ userID"

definition kv_Get :: "world \<Rightarrow> string \<Rightarrow> (kv_error + string option) \<times> world" where
  "kv_Get w key = (bucket w key, w\<lparr>kv_log := kv_log w @ [KVGet key]\<rparr>)"

definition kv_Put :: "world \<Rightarrow> string \<Rightarrow> string \<Rightarrow> kv_error option \<times> world" where
  "kv_Put w key data =
     (let w1 = w\<lparr>kv_log := kv_log w @ [KVPut key data]\<rparr>
      in case put_fault w key of
           Some err \<Rightarrow> (Some err, w1)
         | None \<Rightarrow> (None, w1\<lparr>bucket := (bucket w)(key := Inr (Some data))\<rparr>))"

definition kvStore_Get :: "env \<Rightarrow> world \<Rightarrow> string \<Rightarrow> (store_error + presence) \<times> world" where
  "kvStore_Get e w userID =
     (let key = presenceKey userID;
          (r, w1) = kv_Get w key
      in case r of
           Inl err \<Rightarrow>
             if is_ErrKeyNotFound err \<or>
                strings_Contains (err_text err) ''not found'' \<or>
                strings_Contains (err_text err) ''no message found''
             then (Inl (ErrPresenceNotFound userID), w1)
             else (Inl (ErrGetFailed err), w1)
         | Inr entry \<Rightarrow>
             (case entry of
                None \<Rightarrow> (Inl (ErrPresenceNotFound userID), w1)
              | Some val \<Rightarrow>
                  if length val = 0 then (Inl (ErrPresenceNotFound userID), w1)
                  else (case json_Unmarshal e val of
                          None \<Rightarrow> (Inl ErrUnmarshal, w1)
                        | Some p \<Rightarrow>
                            (case Validate p of
                               Some msg \<Rightarrow> (Inl (ErrPresenceNotFound userID), w1)
                             | None \<Rightarrow> (Inr p, w1)))))"

definition kvStore_Set ::
  "env \<Rightarrow> world \<Rightarrow> string \<Rightarrow> presence \<Rightarrow> duration \<Rightarrow> store_error option \<times> world" where
  "kvStore_Set e w userID p ttl =
     (let key = presenceKey userID
      in case json_Marshal e p of
           None \<Rightarrow> (Some ErrMarshal, w)
         | Some data \<Rightarrow>
             (case kv_Put w key data of
                (Some err, w1) \<Rightarrow> (Some (ErrPutFailed err), w1)
              | (None, w1) \<Rightarrow> (None, w1)))"

text \<open>The loop of \<open>GetMultiple\<close>: \<open>result\<close> is the map built so far.\<close>

fun GetMultiple_loop ::
  "env \<Rightarrow> world \<Rightarrow> (string \<rightharpoonup> presence) \<Rightarrow> string list \<Rightarrow> (string \<rightharpoonup> presence) \<times> world" where
  "GetMultiple_loop e w result [] = (result, w)"
| "GetMultiple_loop e w result (userID # rest) =
     (case kvStore_Get e w userID of
        (Inr p, w1) \<Rightarrow> GetMultiple_loop e w1 (result(userID \<mapsto> p)) rest
      | (Inl err, w1) \<Rightarrow> GetMultiple_loop e w1 result rest)"

definition kvStore_GetMultiple ::
  "env \<Rightarrow> world \<Rightarrow> string list \<Rightarrow> ((string \<rightharpoonup> presence) \<times> store_error option) \<times> world" where
  "kvStore_GetMultiple e w userIDs =
     (let (result, w1) = GetMultiple_loop e w Map.empty userIDs
      in ((result, None), w1))"

section \<open>Presence service (internal/service)\<close>

datatype svc_error =
    PresenceNotFoundError string
  | ErrInvalidPresence string
  | ErrFailedToStore store_error
  | ErrFailedToGetPresences store_error

text \<open>
  The second half of \<open>GetPresence\<close> (``fall back to KV store''), which the first half
  reaches on a cache miss and after removing an expired entry.
\<close>

definition GetPresence_store :: "env \<Rightarrow> world \<Rightarrow> string \<Rightarrow> (svc_error + presence) \<times> world" where
  "GetPresence_store e w userID =
     (case kvStore_Get e w userID of
        (Inl err, w1) \<Rightarrow> (Inl (PresenceNotFoundError userID), w1)
      | (Inr p, w1) \<Rightarrow> (Inr p, ristrettoCache_Set e w1 userID p (TTL p)))"

definition GetPresence :: "env \<Rightarrow> world \<Rightarrow> string \<Rightarrow> (svc_error + presence) \<times> world" where
  "GetPresence e w userID =
     (let ((p, found), w1) = ristrettoCache_Get e w userID
      in if found then
           (let (expired, w2) = IsExpired e w1 p
            in if \<not> expired then (Inr p, w2)
               else GetPresence_store e (ristrettoCache_Delete w2 userID) userID)
         else GetPresence_store e w1 userID)"

text \<open>The record \<open>SetPresence\<close> validates and writes: the argument, stamped.\<close>

definition stamp :: "string \<Rightarrow> gotime \<Rightarrow> presence \<Rightarrow> presence" where
  "stamp nodeID now p =
     (let p1 = p\<lparr>NodeID := nodeID\<rparr>;
          p2 = p1\<lparr>UpdatedAt := time_UTC now\<rparr>
      in p2\<lparr>LastSeen := UpdatedAt p2\<rparr>)"

definition SetPresence ::
  "env \<Rightarrow> string \<Rightarrow> world \<Rightarrow> string \<Rightarrow> presence \<Rightarrow> svc_error option \<times> world" where
  "SetPresence e nodeID w userID p0 =
     (let (now, w1) = time_Now e w;
          p = stamp nodeID now p0
      in case Validate p of
           Some msg \<Rightarrow> (Some (ErrInvalidPresence msg), w1)
         | None \<Rightarrow>
             (case kvStore_Set e w1 userID p (TTL p) of
                (Some err, w2) \<Rightarrow> (Some (ErrFailedToStore err), w2)
              | (None, w2) \<Rightarrow> (None, ristrettoCache_Set e w2 userID p (TTL p))))"

text \<open>
  The first loop of \<open>GetMultiplePresences\<close> (``check cache first''). \<open>&&\<close> evaluates
  its right operand only when the left one holds, so \<open>IsExpired\<close> is called, and the
  clock read, only for a record the cache returned.
\<close>

fun check_cache ::
  "env \<Rightarrow> world \<Rightarrow> (string \<rightharpoonup> presence) \<Rightarrow> string list \<Rightarrow> string list \<Rightarrow>
     ((string \<rightharpoonup> presence) \<times> string list) \<times> world" where
  "check_cache e w result missingUsers [] = ((result, missingUsers), w)"
| "check_cache e w result missingUsers (userID # rest) =
     (let ((p, found), w1) = ristrettoCache_Get e w userID;
          (expired, w2) = (if found then IsExpired e w1 p else (False, w1))
      in if found \<and> \<not> expired
         then check_cache e w2 (result(userID \<mapsto> p)) missingUsers rest
         else (let (expired2, w3) = (if found then IsExpired e w2 p else (False, w2));
                   w4 = (if found \<and> expired2 then ristrettoCache_Delete w3 userID else w3)
               in check_cache e w4 result (missingUsers @ [userID]) rest))"

text \<open>
  The second loop (``add store results to final result and cache them''), over the
  keys of \<open>storeResults\<close> in the order the environment ranks them.
\<close>

fun cache_store_results ::
  "env \<Rightarrow> world \<Rightarrow> (string \<rightharpoonup> presence) \<Rightarrow> (string \<rightharpoonup> presence) \<Rightarrow> string list \<Rightarrow>
     (string \<rightharpoonup> presence) \<times> world" where
  "cache_store_results e w result storeResults [] = (result, w)"
| "cache_store_results e w result storeResults (userID # rest) =
     (case storeResults userID of
        None \<Rightarrow> cache_store_results e w result storeResults rest
      | Some p \<Rightarrow>
          cache_store_results e (ristrettoCache_Set e w userID p (TTL p))
            (result(userID \<mapsto> p)) storeResults rest)"

text \<open>
  The keys of a map returned for the ids \<open>userIDs\<close>, each once, in the order of the
  environment's ranking.
\<close>

definition range_keys :: "env \<Rightarrow> (string \<rightharpoonup> presence) \<Rightarrow> string list \<Rightarrow> string list" where
  "range_keys e m userIDs =
     sort_key (range_rank e) (filter (\<lambda>k. m k \<noteq> None) (remdups userIDs))"

definition GetMultiplePresences ::
  "env \<Rightarrow> world \<Rightarrow> string list \<Rightarrow> (svc_error + (string \<rightharpoonup> presence)) \<times> world" where
  "GetMultiplePresences e w userIDs =
     (let ((result, missingUsers), w1) = check_cache e w Map.empty [] userIDs
      in if 0 < length missingUsers then
           (case kvStore_GetMultiple e w1 missingUsers of
              ((storeResults, Some err), w2) \<Rightarrow> (Inl (ErrFailedToGetPresences err), w2)
            | ((storeResults, None), w2) \<Rightarrow>
                (let (result2, w3) =
                       cache_store_results e w2 result storeResults
                         (range_keys e storeResults missingUsers)
                 in (Inr result2, w3)))
         else (Inr result, w1))"


text \<open>
  What the store returns for an id, as a lookup: the record of a successful \<open>Get\<close>,
  and \<open>None\<close> for a \<open>Get\<close> that returns any error.
\<close>

definition store_lookup :: "env \<Rightarrow> world \<Rightarrow> string \<Rightarrow> presence option" where
  "store_lookup e w uid =
     (case fst (kvStore_Get e w uid) of Inr p \<Rightarrow> Some p | Inl err \<Rightarrow> None)"

section \<open>Concrete environments and states\<close>

text \<open>
  The inputs of the examples below. The codec is outside the repository; this one is a
  table over the payloads the examples store: \<open>{}\<close> decodes to the zero record,
  \<open>{bad json\<close> is not JSON, and \<open><u1>\<close>, \<open><u2>\<close> stand for the encodings of two
  valid records.
\<close>

definition demo_presence :: "string \<Rightarrow> string \<Rightarrow> presence" where
  "demo_presence uid st =
     \<lparr>UserID = uid, Status = st, Message = [], LastSeen = \<lparr>nanos = 1000, zone = UTC\<rparr>,
      UpdatedAt = \<lparr>nanos = 1000, zone = UTC\<rparr>, NodeID = ''node1'', TTL = 0\<rparr>"

definition demo_Marshal :: "presence \<Rightarrow> string option" where
  "demo_Marshal p = Some (''<'' @ UserID p @ ''>'')"

definition demo_Unmarshal :: "string \<Rightarrow> presence option" where
  "demo_Unmarshal data =
     (if data = ''{}'' then Some zero_presence
      else if data = ''<u1>'' then Some (demo_presence ''u1'' ''busy'')
      else if data = ''<u2>'' then Some (demo_presence ''u2'' ''away'')
      else None)"

definition demo_env :: env where
  "demo_env =
     \<lparr>clock = (\<lambda>n. 1000), admission = (\<lambda>n. Some []),
      json_Marshal = demo_Marshal, json_Unmarshal = demo_Unmarshal,
      range_rank = length\<rparr>"

definition ErrKeyNotFound :: kv_error where
  "ErrKeyNotFound = KvError True ''nats: key not found''"

text \<open>An empty cache in front of an empty, healthy bucket.\<close>

definition empty_world :: world where
  "empty_world =
     \<lparr>ticks = 0, nsets = 0, items = Map.empty, rist_log = [],
      bucket = (\<lambda>key. Inl ErrKeyNotFound), put_fault = (\<lambda>key. None), kv_log = []\<rparr>"

text \<open>A bucket that cannot be reached: every request fails with a connection error.\<close>

definition conn_closed :: kv_error where
  "conn_closed = KvError False ''nats: connection closed''"

definition down_world :: world where
  "down_world = empty_world\<lparr>bucket := (\<lambda>key. Inl conn_closed),
                              put_fault := (\<lambda>key. Some conn_closed)\<rparr>"

section \<open>Properties of the record model\<close>

text \<open>
  C9. Validate fails when UserID is empty, when NodeID is empty, or when Status is not
  one of online, away, busy, offline; it succeeds for every record that satisfies the
  three constraints, whatever its Message, LastSeen, UpdatedAt and TTL fields are.
\<close>

theorem Validate_fails_iff:
  "(Validate p \<noteq> None) =
     (UserID p = [] \<or> NodeID p = [] \<or>
      Status p \<notin> {''online'', ''away'', ''busy'', ''offline''})"
  by (simp add: Validate_def IsValid_def StatusOnline_def StatusAway_def
        StatusBusy_def StatusOffline_def)

theorem Validate_fails_iff_witness:
  "Validate \<lparr>UserID = ''user123'', Status = ''online'', Message = ''Working'',
       LastSeen = zero_time, UpdatedAt = zero_time, NodeID = ''node1'', TTL = 5\<rparr> = None
   \<and> Validate \<lparr>UserID = ''user123'', Status = ''invalid'', Message = [],
       LastSeen = zero_time, UpdatedAt = zero_time, NodeID = ''node1'', TTL = 0\<rparr> \<noteq> None"
  using Validate_fails_iff [of "\<lparr>UserID = ''user123'', Status = ''online'',
       Message = ''Working'', LastSeen = zero_time, UpdatedAt = zero_time,
       NodeID = ''node1'', TTL = 5\<rparr>"]
    Validate_fails_iff [of "\<lparr>UserID = ''user123'', Status = ''invalid'',
       Message = [], LastSeen = zero_time, UpdatedAt = zero_time,
       NodeID = ''node1'', TTL = 0\<rparr>"]
  by simp

section \<open>Auxiliary facts\<close>

text \<open>Which parts of the state each operation leaves alone.\<close>

lemmas cache_defs = ristrettoCache_Get_def ristrettoCache_Set_def ristrettoCache_Delete_def
  rist_Get_def rist_Set_def rist_Del_def rist_Wait_def time_Since_def time_Now_def
  IsExpired_def

lemma IsExpired_frame:
  "IsExpired e w p = (x, w') \<Longrightarrow>
     bucket w' = bucket w \<and> kv_log w' = kv_log w \<and> put_fault w' = put_fault w \<and>
     items w' = items w \<and> rist_log w' = rist_log w \<and> nsets w' = nsets w"
  by (auto simp add: cache_defs Let_def split: if_splits)

lemma ristrettoCache_Get_frame:
  "ristrettoCache_Get e w uid = (r, w') \<Longrightarrow>
     bucket w' = bucket w \<and> kv_log w' = kv_log w \<and> put_fault w' = put_fault w \<and>
     nsets w' = nsets w"
  by (auto simp add: cache_defs Let_def split: if_splits option.splits cval.splits)

lemma ristrettoCache_Delete_frame:
  "bucket (ristrettoCache_Delete w uid) = bucket w \<and>
   kv_log (ristrettoCache_Delete w uid) = kv_log w \<and>
   put_fault (ristrettoCache_Delete w uid) = put_fault w \<and>
   nsets (ristrettoCache_Delete w uid) = nsets w \<and>
   items (ristrettoCache_Delete w uid) = (items w)(uid := None) \<and>
   rist_log (ristrettoCache_Delete w uid) = rist_log w @ [RDel uid, RWait]"
  by (simp add: cache_defs)

lemma ristrettoCache_Set_frame:
  "bucket (ristrettoCache_Set e w uid p ttl) = bucket w \<and>
   kv_log (ristrettoCache_Set e w uid p ttl) = kv_log w \<and>
   put_fault (ristrettoCache_Set e w uid p ttl) = put_fault w \<and>
   nsets (ristrettoCache_Set e w uid p ttl) = Suc (nsets w) \<and>
   ticks (ristrettoCache_Set e w uid p ttl) = ticks w \<and>
   rist_log (ristrettoCache_Set e w uid p ttl) =
     rist_log w @ [RSet uid (CPresence (if 0 < ttl then p\<lparr>TTL := ttl\<rparr> else p))
                     (estimateCost e p), RWait]"
  by (simp add: cache_defs Let_def split: option.split)

lemma ristrettoCache_Set_items:
  "admission e (nsets w) = Some victims \<Longrightarrow>
   items (ristrettoCache_Set e w uid p ttl) =
     (evict victims (items w))(uid \<mapsto> CPresence (if 0 < ttl then p\<lparr>TTL := ttl\<rparr> else p))"
  by (simp add: cache_defs Let_def)

lemma kvStore_Get_frame:
  "kvStore_Get e w uid = (r, w') \<Longrightarrow>
     w' = w\<lparr>kv_log := kv_log w @ [KVGet (presenceKey uid)]\<rparr>"
  by (auto simp add: kvStore_Get_def kv_Get_def Let_def split: sum.splits option.splits if_splits)

lemmas store_defs = kvStore_Get_def kvStore_Set_def kv_Get_def kv_Put_def presenceKey_def
  kvStore_GetMultiple_def

lemmas demo_defs = demo_env_def empty_world_def demo_presence_def demo_Marshal_def
  demo_Unmarshal_def ErrKeyNotFound_def zero_presence_def zero_time_def

lemmas eval_defs = cache_defs store_defs demo_defs GetPresence_def GetPresence_store_def
  Validate_def IsValid_def StatusOnline_def StatusAway_def StatusBusy_def StatusOffline_def
  time_Sub_def minDuration_def maxDuration_def estimateCost_def evict_def Let_def

lemma kvStore_Get_world:
  "snd (kvStore_Get e w uid) = w\<lparr>kv_log := kv_log w @ [KVGet (presenceKey uid)]\<rparr>"
  by (simp add: kvStore_Get_def kv_Get_def Let_def split: sum.split option.split)

lemma kvStore_Get_result_bucket:
  "bucket w' = bucket w \<Longrightarrow> fst (kvStore_Get e w' uid) = fst (kvStore_Get e w uid)"
  by (simp add: kvStore_Get_def kv_Get_def Let_def split: sum.split option.split)

lemma GetMultiple_loop_eq:
  "GetMultiple_loop e w result ids =
     ((\<lambda>uid. if uid \<in> set ids \<and> store_lookup e w uid \<noteq> None then store_lookup e w uid else result uid),
      w\<lparr>kv_log := kv_log w @ map (\<lambda>uid. KVGet (presenceKey uid)) ids\<rparr>)"
proof (induction ids arbitrary: w result)
  case Nil
  show ?case by simp
next
  case (Cons uid ids)
  obtain r w1 where g: "kvStore_Get e w uid = (r, w1)" by (cases "kvStore_Get e w uid")
  have w1: "w1 = w\<lparr>kv_log := kv_log w @ [KVGet (presenceKey uid)]\<rparr>"
    using kvStore_Get_world [of e w uid] g by simp
  have same: "\<And>x. store_lookup e w1 x = store_lookup e w x"
    unfolding store_lookup_def using kvStore_Get_result_bucket [of w1 w e] w1 by simp
  have r: "store_lookup e w uid = (case r of Inr p \<Rightarrow> Some p | Inl err \<Rightarrow> None)"
    using g by (simp add: store_lookup_def)
  have rl: "store_lookup e w uid = (case r of Inr p \<Rightarrow> Some p | Inl err \<Rightarrow> None)"
    using r .
  show ?case
  proof (cases r)
    case (Inl err)
    have "GetMultiple_loop e w result (uid # ids) = GetMultiple_loop e w1 result ids"
      using g Inl by simp
    also have "\<dots> = ((\<lambda>x. if x \<in> set ids \<and> store_lookup e w1 x \<noteq> None
                            then store_lookup e w1 x else result x),
       w1\<lparr>kv_log := kv_log w1 @ map (\<lambda>uid. KVGet (presenceKey uid)) ids\<rparr>)"
      by (rule Cons.IH)
    also have "\<dots> = ((\<lambda>x. if x \<in> set (uid # ids) \<and> store_lookup e w x \<noteq> None
                            then store_lookup e w x else result x),
       w\<lparr>kv_log := kv_log w @ map (\<lambda>uid. KVGet (presenceKey uid)) (uid # ids)\<rparr>)"
      using rl Inl by (auto simp add: fun_eq_iff same [unfolded w1] w1)
    finally show ?thesis .
  next
    case (Inr p)
    have "GetMultiple_loop e w result (uid # ids) =
            GetMultiple_loop e w1 (result(uid \<mapsto> p)) ids"
      using g Inr by simp
    also have "\<dots> = ((\<lambda>x. if x \<in> set ids \<and> store_lookup e w1 x \<noteq> None
                            then store_lookup e w1 x else (result(uid \<mapsto> p)) x),
       w1\<lparr>kv_log := kv_log w1 @ map (\<lambda>uid. KVGet (presenceKey uid)) ids\<rparr>)"
      by (rule Cons.IH)
    also have "\<dots> = ((\<lambda>x. if x \<in> set (uid # ids) \<and> store_lookup e w x \<noteq> None
                            then store_lookup e w x else result x),
       w\<lparr>kv_log := kv_log w @ map (\<lambda>uid. KVGet (presenceKey uid)) (uid # ids)\<rparr>)"
      using rl Inr by (auto simp add: fun_eq_iff same [unfolded w1] w1)
    finally show ?thesis .
  qed
qed

section \<open>Properties of the durable store\<close>

text \<open>
  C3 (as amended). \<open>Get\<close> turns an explicit not-found of the KV layer (also an error
  whose text contains ``not found'' or ``no message found''), a nil entry, an entry with
  an empty payload, and a stored value that decodes but fails validation into the one
  not-found error for that user. A stored value that does not decode yields the
  different error ``failed to unmarshal presence''. None of these yields a record.
\<close>

theorem kvStore_Get_absent_signals:
  "(bucket w (presenceKey uid) = Inl err \<and>
      (is_ErrKeyNotFound err \<or> strings_Contains (err_text err) ''not found'' \<or>
       strings_Contains (err_text err) ''no message found'')
      \<longrightarrow> fst (kvStore_Get e w uid) = Inl (ErrPresenceNotFound uid))
   \<and> (bucket w (presenceKey uid) = Inr None
      \<longrightarrow> fst (kvStore_Get e w uid) = Inl (ErrPresenceNotFound uid))
   \<and> (bucket w (presenceKey uid) = Inr (Some [])
      \<longrightarrow> fst (kvStore_Get e w uid) = Inl (ErrPresenceNotFound uid))
   \<and> (bucket w (presenceKey uid) = Inr (Some data) \<and> data \<noteq> [] \<and>
      json_Unmarshal e data = Some p \<and> Validate p \<noteq> None
      \<longrightarrow> fst (kvStore_Get e w uid) = Inl (ErrPresenceNotFound uid))
   \<and> (bucket w (presenceKey uid) = Inr (Some data) \<and> data \<noteq> [] \<and>
      json_Unmarshal e data = None
      \<longrightarrow> fst (kvStore_Get e w uid) = Inl ErrUnmarshal)"
  by (auto simp add: kvStore_Get_def kv_Get_def Let_def split: sum.split option.split)

theorem kvStore_Get_absent_signals_witness:
  "fst (kvStore_Get demo_env empty_world ''u1'') = Inl (ErrPresenceNotFound ''u1'')
   \<and> fst (kvStore_Get demo_env
         (empty_world\<lparr>bucket := (bucket empty_world)(''user.u1'' := Inr (Some ''{}''))\<rparr>)
         ''u1'') = Inl (ErrPresenceNotFound ''u1'')
   \<and> fst (kvStore_Get demo_env
         (empty_world\<lparr>bucket := (bucket empty_world)(''user.u1'' := Inr (Some ''{bad''))\<rparr>)
         ''u1'') = Inl ErrUnmarshal"
proof -
  define w2 where
    "w2 = empty_world\<lparr>bucket := (bucket empty_world)(''user.u1'' := Inr (Some ''{}''))\<rparr>"
  define w3 where
    "w3 = empty_world\<lparr>bucket := (bucket empty_world)(''user.u1'' := Inr (Some ''{bad''))\<rparr>"
  define u where "u = ''u1''"
  define d2 where "d2 = ''{}''"
  define d3 where "d3 = ''{bad''"
  have h1: "bucket empty_world (presenceKey u) = Inl ErrKeyNotFound"
    by (simp add: empty_world_def)
  have k1: "is_ErrKeyNotFound ErrKeyNotFound"
    by (simp add: ErrKeyNotFound_def)
  have h2: "bucket w2 (presenceKey u) = Inr (Some d2)"
    by (simp add: presenceKey_def w2_def u_def d2_def)
  have k2: "d2 \<noteq> [] \<and> json_Unmarshal demo_env d2 = Some zero_presence \<and>
            Validate zero_presence \<noteq> None"
    by (simp add: demo_env_def demo_Unmarshal_def Validate_def zero_presence_def d2_def)
  have h3: "bucket w3 (presenceKey u) = Inr (Some d3)"
    by (simp add: presenceKey_def w3_def u_def d3_def)
  have k3: "d3 \<noteq> [] \<and> json_Unmarshal demo_env d3 = None"
    by (simp add: demo_env_def demo_Unmarshal_def d3_def)
  have r1: "fst (kvStore_Get demo_env empty_world u) = Inl (ErrPresenceNotFound u)"
    using h1 k1 kvStore_Get_absent_signals [of empty_world u ErrKeyNotFound demo_env d2
        zero_presence]
    by blast
  have r2: "fst (kvStore_Get demo_env w2 u) = Inl (ErrPresenceNotFound u)"
    using h2 k2 kvStore_Get_absent_signals [of w2 u ErrKeyNotFound demo_env d2 zero_presence]
    by blast
  have r3: "fst (kvStore_Get demo_env w3 u) = Inl ErrUnmarshal"
    using h3 k3 kvStore_Get_absent_signals [of w3 u ErrKeyNotFound demo_env d3 zero_presence]
    by blast
  show ?thesis
    using r1 r2 r3 unfolding w2_def w3_def u_def by (intro conjI)
qed

text \<open>
  The claim as stated fails for an undecodable value: with \<open>{bad json\<close> stored under
  \<open>user.u1\<close>, \<open>Get\<close> returns the unmarshal error, not the not-found error.
\<close>

theorem kvStore_Get_bad_json_counterexample:
  "fst (kvStore_Get demo_env
         (empty_world\<lparr>bucket := (bucket empty_world)(''user.u1'' := Inr (Some ''{bad json''))\<rparr>)
         ''u1'') = Inl ErrUnmarshal
   \<and> fst (kvStore_Get demo_env
         (empty_world\<lparr>bucket := (bucket empty_world)(''user.u1'' := Inr (Some ''{bad json''))\<rparr>)
         ''u1'') \<noteq> Inl (ErrPresenceNotFound ''u1'')"
  by (simp add: kvStore_Get_def kv_Get_def Let_def presenceKey_def demo_env_def
        demo_Unmarshal_def empty_world_def)

section \<open>Properties of the presence service\<close>

text \<open>
  C1. \<open>GetPresence\<close> consults the cache first. On a hit that is not expired it
  returns the cached record and the store receives no request. On a hit that is expired
  it deletes the cache entry and goes on to the store, as it does on a miss. There, a
  record the store returns is written to the cache (one \<open>Set\<close> of exactly that record)
  and returned, after exactly one \<open>Get\<close> request to the bucket; an error of the store
  yields \<open>PresenceNotFoundError\<close> for that user and leaves the cache as it was.
\<close>

theorem GetPresence_cache_aside:
  assumes get: "ristrettoCache_Get e w uid = ((p, found), w1)"
      and exp: "IsExpired e w1 p = (expired, w2)"
      and ws: "ws = (if found then ristrettoCache_Delete w2 uid else w1)"
  shows "(found \<and> \<not> expired \<longrightarrow>
            GetPresence e w uid = (Inr p, w2) \<and> kv_log w2 = kv_log w \<and> bucket w2 = bucket w)
       \<and> (found \<and> expired \<longrightarrow>
            items ws uid = None \<and> rist_log ws = rist_log w2 @ [RDel uid, RWait])
       \<and> (\<not> (found \<and> \<not> expired) \<longrightarrow>
            (\<forall>q w3. kvStore_Get e ws uid = (Inr q, w3) \<longrightarrow>
               fst (GetPresence e w uid) = Inr q \<and>
               snd (GetPresence e w uid) = ristrettoCache_Set e w3 uid q (TTL q) \<and>
               rist_log (snd (GetPresence e w uid)) =
                 rist_log ws @ [RSet uid (CPresence q) (estimateCost e q), RWait] \<and>
               kv_log (snd (GetPresence e w uid)) = kv_log w @ [KVGet (presenceKey uid)] \<and>
               (admission e (nsets w) \<noteq> None \<longrightarrow>
                  items (snd (GetPresence e w uid)) uid = Some (CPresence q)))
          \<and> (\<forall>err w3. kvStore_Get e ws uid = (Inl err, w3) \<longrightarrow>
               GetPresence e w uid = (Inl (PresenceNotFoundError uid), w3) \<and>
               kv_log w3 = kv_log w @ [KVGet (presenceKey uid)] \<and>
               items w3 = items ws \<and> rist_log w3 = rist_log ws))"
proof -
  note f1 = ristrettoCache_Get_frame [OF get]
  note f2 = IsExpired_frame [OF exp]
  have hit: "found \<and> \<not> expired \<longrightarrow>
            GetPresence e w uid = (Inr p, w2) \<and> kv_log w2 = kv_log w \<and> bucket w2 = bucket w"
    using get exp f1 f2 by (simp add: GetPresence_def)
  have del: "found \<and> expired \<longrightarrow>
            items ws uid = None \<and> rist_log ws = rist_log w2 @ [RDel uid, RWait]"
    using ws by (simp add: ristrettoCache_Delete_frame)
  have fall: "\<not> (found \<and> \<not> expired) \<Longrightarrow> GetPresence e w uid = GetPresence_store e ws uid"
    using get exp ws by (auto simp add: GetPresence_def)
  have wsf: "kv_log ws = kv_log w \<and> nsets ws = nsets w"
    using ws f1 f2 by (simp add: ristrettoCache_Delete_frame)
  have ok: "\<not> (found \<and> \<not> expired) \<Longrightarrow> kvStore_Get e ws uid = (Inr q, w3) \<Longrightarrow>
               fst (GetPresence e w uid) = Inr q \<and>
               snd (GetPresence e w uid) = ristrettoCache_Set e w3 uid q (TTL q) \<and>
               rist_log (snd (GetPresence e w uid)) =
                 rist_log ws @ [RSet uid (CPresence q) (estimateCost e q), RWait] \<and>
               kv_log (snd (GetPresence e w uid)) = kv_log w @ [KVGet (presenceKey uid)] \<and>
               (admission e (nsets w) \<noteq> None \<longrightarrow>
                  items (snd (GetPresence e w uid)) uid = Some (CPresence q))" for q w3
  proof -
    assume a: "\<not> (found \<and> \<not> expired)" and g: "kvStore_Get e ws uid = (Inr q, w3)"
    have w3: "w3 = ws\<lparr>kv_log := kv_log ws @ [KVGet (presenceKey uid)]\<rparr>"
      using kvStore_Get_frame [OF g] .
    have r: "GetPresence e w uid = (Inr q, ristrettoCache_Set e w3 uid q (TTL q))"
      using fall [OF a] g by (simp add: GetPresence_store_def)
    have same: "(if 0 < TTL q then q\<lparr>TTL := TTL q\<rparr> else q) = q" by simp
    show ?thesis
      using r w3 wsf same ristrettoCache_Set_frame [of e w3 uid q "TTL q"]
        ristrettoCache_Set_items [of e w3 _ uid q "TTL q"]
      by auto
  qed
  have miss: "\<not> (found \<and> \<not> expired) \<Longrightarrow> kvStore_Get e ws uid = (Inl err, w3) \<Longrightarrow>
               GetPresence e w uid = (Inl (PresenceNotFoundError uid), w3) \<and>
               kv_log w3 = kv_log w @ [KVGet (presenceKey uid)] \<and>
               items w3 = items ws \<and> rist_log w3 = rist_log ws" for err w3
  proof -
    assume a: "\<not> (found \<and> \<not> expired)" and g: "kvStore_Get e ws uid = (Inl err, w3)"
    have w3: "w3 = ws\<lparr>kv_log := kv_log ws @ [KVGet (presenceKey uid)]\<rparr>"
      using kvStore_Get_frame [OF g] .
    show ?thesis using fall [OF a] g w3 wsf by (simp add: GetPresence_store_def)
  qed
  show ?thesis using hit del ok miss by blast
qed

theorem GetPresence_cache_aside_witness:
  "fst (GetPresence demo_env
          (empty_world\<lparr>items := [''u1'' \<mapsto> CPresence (demo_presence ''u1'' ''busy'')]\<rparr>) ''u1'')
     = Inr (demo_presence ''u1'' ''busy'')
   \<and> kv_log (snd (GetPresence demo_env
          (empty_world\<lparr>items := [''u1'' \<mapsto> CPresence (demo_presence ''u1'' ''busy'')]\<rparr>) ''u1''))
     = []
   \<and> fst (GetPresence (demo_env\<lparr>clock := (\<lambda>n. if n = 0 then 1010 else 2000)\<rparr>)
          (empty_world\<lparr>items := [''u1'' \<mapsto> CPresence ((demo_presence ''u1'' ''away'')\<lparr>TTL := 50\<rparr>)],
                       bucket := (bucket empty_world)(''user.u1'' := Inr (Some ''<u1>''))\<rparr>) ''u1'')
     = Inr (demo_presence ''u1'' ''busy'')
   \<and> rist_log (snd (GetPresence (demo_env\<lparr>clock := (\<lambda>n. if n = 0 then 1010 else 2000)\<rparr>)
          (empty_world\<lparr>items := [''u1'' \<mapsto> CPresence ((demo_presence ''u1'' ''away'')\<lparr>TTL := 50\<rparr>)],
                       bucket := (bucket empty_world)(''user.u1'' := Inr (Some ''<u1>''))\<rparr>) ''u1''))
     = [RGet ''u1'', RDel ''u1'', RWait,
        RSet ''u1'' (CPresence (demo_presence ''u1'' ''busy'')) 104, RWait]
   \<and> fst (GetPresence demo_env empty_world ''u4'') = Inl (PresenceNotFoundError ''u4'')"
proof -
  let ?wa = "empty_world\<lparr>items := [''u1'' \<mapsto> CPresence (demo_presence ''u1'' ''busy'')]\<rparr>"
  let ?eb = "demo_env\<lparr>clock := (\<lambda>n. if n = 0 then 1010 else 2000)\<rparr>"
  let ?wb = "empty_world\<lparr>items := [''u1'' \<mapsto> CPresence ((demo_presence ''u1'' ''away'')\<lparr>TTL := 50\<rparr>)],
                       bucket := (bucket empty_world)(''user.u1'' := Inr (Some ''<u1>''))\<rparr>"
  have ta: "fst (GetPresence demo_env ?wa ''u1'') = Inr (demo_presence ''u1'' ''busy'') \<and>
            kv_log (snd (GetPresence demo_env ?wa ''u1'')) = []"
  proof -
    obtain p found w1 where g: "ristrettoCache_Get demo_env ?wa ''u1'' = ((p, found), w1)"
      by (metis prod.exhaust)
    obtain expired w2 where x: "IsExpired demo_env w1 p = (expired, w2)"
      by (metis prod.exhaust)
    have v: "p = demo_presence ''u1'' ''busy'' \<and> found \<and> \<not> expired"
      using g x by (auto simp add: eval_defs)
    have "GetPresence demo_env ?wa ''u1'' = (Inr p, w2) \<and> kv_log w2 = kv_log ?wa"
      using GetPresence_cache_aside [OF g x refl] v by blast
    then show ?thesis using v by (simp add: empty_world_def)
  qed
  have tb: "fst (GetPresence ?eb ?wb ''u1'') = Inr (demo_presence ''u1'' ''busy'') \<and>
            rist_log (snd (GetPresence ?eb ?wb ''u1'')) =
              [RGet ''u1'', RDel ''u1'', RWait,
               RSet ''u1'' (CPresence (demo_presence ''u1'' ''busy'')) 104, RWait]"
  proof -
    obtain p found w1 where g: "ristrettoCache_Get ?eb ?wb ''u1'' = ((p, found), w1)"
      by (metis prod.exhaust)
    obtain expired w2 where x: "IsExpired ?eb w1 p = (expired, w2)"
      by (metis prod.exhaust)
    define ws where "ws = (if found then ristrettoCache_Delete w2 ''u1'' else w1)"
    obtain r w3 where s: "kvStore_Get ?eb ws ''u1'' = (r, w3)"
      by (metis prod.exhaust)
    have v: "found \<and> expired \<and> rist_log w2 = [RGet ''u1'']"
      using g x by (auto simp add: eval_defs)
    have b: "bucket ws = bucket ?wb"
      using ristrettoCache_Get_frame [OF g] IsExpired_frame [OF x] v
      by (simp add: ws_def ristrettoCache_Delete_frame)
    have r: "r = Inr (demo_presence ''u1'' ''busy'')"
      using s b by (auto simp add: eval_defs)
    have c: "estimateCost ?eb (demo_presence ''u1'' ''busy'') = 104"
      by (simp add: eval_defs)
    have "fst (GetPresence ?eb ?wb ''u1'') = Inr (demo_presence ''u1'' ''busy'') \<and>
          rist_log (snd (GetPresence ?eb ?wb ''u1'')) =
            rist_log ws @ [RSet ''u1'' (CPresence (demo_presence ''u1'' ''busy''))
               (estimateCost ?eb (demo_presence ''u1'' ''busy'')), RWait] \<and>
          rist_log ws = rist_log w2 @ [RDel ''u1'', RWait]"
      using GetPresence_cache_aside [OF g x ws_def] v s [unfolded r] by blast
    then show ?thesis using v c by simp
  qed
  have tc: "fst (GetPresence demo_env empty_world ''u4'') = Inl (PresenceNotFoundError ''u4'')"
  proof -
    obtain p found w1 where g: "ristrettoCache_Get demo_env empty_world ''u4'' = ((p, found), w1)"
      by (metis prod.exhaust)
    obtain expired w2 where x: "IsExpired demo_env w1 p = (expired, w2)"
      by (metis prod.exhaust)
    define ws where "ws = (if found then ristrettoCache_Delete w2 ''u4'' else w1)"
    obtain r w3 where s: "kvStore_Get demo_env ws ''u4'' = (r, w3)"
      by (metis prod.exhaust)
    have v: "\<not> found"
      using g by (auto simp add: eval_defs)
    have b: "bucket ws = bucket empty_world"
      using ristrettoCache_Get_frame [OF g] v by (simp add: ws_def)
    have r: "r = Inl (ErrPresenceNotFound ''u4'')"
      using s b by (auto simp add: eval_defs)
    have "GetPresence demo_env empty_world ''u4'' = (Inl (PresenceNotFoundError ''u4''), w3)"
      using GetPresence_cache_aside [OF g x ws_def] v s [unfolded r] by blast
    then show ?thesis by simp
  qed
  show ?thesis
    using ta tb tc by blast
qed

text \<open>Facts about \<open>SetPresence\<close> and the store's \<open>Set\<close>.\<close>

lemma kvStore_Set_frame:
  "kvStore_Set e w uid p ttl = (r, w') \<Longrightarrow>
     items w' = items w \<and> rist_log w' = rist_log w \<and> nsets w' = nsets w \<and>
     ticks w' = ticks w"
  by (auto simp add: kvStore_Set_def kv_Put_def Let_def split: option.splits)

lemma kvStore_Set_ok:
  "kvStore_Set e w uid p ttl = (None, w') \<Longrightarrow>
     \<exists>data. json_Marshal e p = Some data \<and>
       kv_log w' = kv_log w @ [KVPut (presenceKey uid) data] \<and>
       bucket w' (presenceKey uid) = Inr (Some data)"
  by (auto simp add: kvStore_Set_def kv_Put_def Let_def split: option.splits)

lemma stamp_eq:
  "stamp nodeID \<lparr>nanos = t, zone = z\<rparr> p =
     p\<lparr>NodeID := nodeID, UpdatedAt := \<lparr>nanos = t, zone = UTC\<rparr>,
       LastSeen := \<lparr>nanos = t, zone = UTC\<rparr>\<rparr>"
  by (simp add: stamp_def time_UTC_def Let_def)

lemma SetPresence_unfold:
  "SetPresence e nodeID w uid p0 =
     (let w1 = w\<lparr>ticks := Suc (ticks w)\<rparr>;
          p = p0\<lparr>NodeID := nodeID, UpdatedAt := \<lparr>nanos = clock e (ticks w), zone = UTC\<rparr>,
                 LastSeen := \<lparr>nanos = clock e (ticks w), zone = UTC\<rparr>\<rparr>
      in case Validate p of
           Some msg \<Rightarrow> (Some (ErrInvalidPresence msg), w1)
         | None \<Rightarrow>
             (case kvStore_Set e w1 uid p (TTL p) of
                (Some err, w2) \<Rightarrow> (Some (ErrFailedToStore err), w2)
              | (None, w2) \<Rightarrow> (None, ristrettoCache_Set e w2 uid p (TTL p))))"
  unfolding SetPresence_def time_Now_def Let_def prod.case stamp_eq by (rule refl)

text \<open>
  C4. \<open>SetPresence\<close> overwrites NodeID with the service's node identifier and sets
  UpdatedAt and LastSeen to the current time in UTC before it validates and writes:
  the values the client supplied for the three fields do not change the outcome, and
  on success the bucket holds the encoding of the stamped record and the cache
  receives one \<open>Set\<close> of exactly the stamped record.
\<close>

theorem SetPresence_stamps:
  assumes st: "stamped = p\<lparr>NodeID := nodeID,
                   UpdatedAt := \<lparr>nanos = clock e (ticks w), zone = UTC\<rparr>,
                   LastSeen := \<lparr>nanos = clock e (ticks w), zone = UTC\<rparr>\<rparr>"
      and run: "SetPresence e nodeID w uid p = (r, w')"
  shows "SetPresence e nodeID w uid (p\<lparr>NodeID := n, UpdatedAt := u, LastSeen := l\<rparr>) = (r, w')
       \<and> (r = None \<longrightarrow>
            Validate stamped = None
          \<and> (\<exists>data. json_Marshal e stamped = Some data \<and>
                kv_log w' = kv_log w @ [KVPut (presenceKey uid) data] \<and>
                bucket w' (presenceKey uid) = Inr (Some data))
          \<and> rist_log w' =
                rist_log w @ [RSet uid (CPresence stamped) (estimateCost e stamped), RWait]
          \<and> (admission e (nsets w) \<noteq> None \<longrightarrow> items w' uid = Some (CPresence stamped)))"
proof -
  have indep: "SetPresence e nodeID w uid (p\<lparr>NodeID := n, UpdatedAt := u, LastSeen := l\<rparr>)
                 = SetPresence e nodeID w uid p"
    by (simp add: SetPresence_unfold)
  have ok: "Validate stamped = None
          \<and> (\<exists>data. json_Marshal e stamped = Some data \<and>
                kv_log w' = kv_log w @ [KVPut (presenceKey uid) data] \<and>
                bucket w' (presenceKey uid) = Inr (Some data))
          \<and> rist_log w' =
                rist_log w @ [RSet uid (CPresence stamped) (estimateCost e stamped), RWait]
          \<and> (admission e (nsets w) \<noteq> None \<longrightarrow> items w' uid = Some (CPresence stamped))"
    if rn: "r = None"
  proof -
    let ?w1 = "w\<lparr>ticks := Suc (ticks w)\<rparr>"
    obtain sr w2 where s: "kvStore_Set e ?w1 uid stamped (TTL stamped) = (sr, w2)"
      by (metis prod.exhaust)
    have v: "Validate stamped = None"
      using run rn st by (auto simp add: SetPresence_unfold Let_def split: option.splits prod.splits)
    have sr: "sr = None"
      using run rn s v st by (auto simp add: SetPresence_unfold Let_def split: option.splits)
    have w': "w' = ristrettoCache_Set e w2 uid stamped (TTL stamped)"
      using run s v sr st by (auto simp add: SetPresence_unfold Let_def)
    note f = kvStore_Set_frame [OF s]
    note k = kvStore_Set_ok [OF s [unfolded sr]]
    note c = ristrettoCache_Set_frame [of e w2 uid stamped "TTL stamped"]
    have same: "(if 0 < TTL stamped then stamped\<lparr>TTL := TTL stamped\<rparr> else stamped) = stamped"
      by simp
    have adm: "admission e (nsets w) \<noteq> None \<longrightarrow> items w' uid = Some (CPresence stamped)"
      using ristrettoCache_Set_items [of e w2 _ uid stamped "TTL stamped"] f w' same by auto
    show ?thesis using v k c f w' same adm by auto
  qed
  show ?thesis using indep run ok by simp
qed

text \<open>
  C5. \<open>SetPresence\<close> returns an error exactly when the stamped record fails validation
  or the store's \<open>Set\<close> returns an error, and then the cache is as it was: same
  entries, no request received.
\<close>

theorem SetPresence_failure_keeps_cache:
  assumes st: "stamped = p\<lparr>NodeID := nodeID,
                   UpdatedAt := \<lparr>nanos = clock e (ticks w), zone = UTC\<rparr>,
                   LastSeen := \<lparr>nanos = clock e (ticks w), zone = UTC\<rparr>\<rparr>"
      and run: "SetPresence e nodeID w uid p = (r, w')"
  shows "(r \<noteq> None) =
           (Validate stamped \<noteq> None \<or>
            fst (kvStore_Set e (w\<lparr>ticks := Suc (ticks w)\<rparr>) uid stamped (TTL stamped)) \<noteq> None)
       \<and> (r \<noteq> None \<longrightarrow>
            items w' = items w \<and> rist_log w' = rist_log w \<and> nsets w' = nsets w)"
proof -
  let ?w1 = "w\<lparr>ticks := Suc (ticks w)\<rparr>"
  obtain sr w2 where s: "kvStore_Set e ?w1 uid stamped (TTL stamped) = (sr, w2)"
    by (metis prod.exhaust)
  note f = kvStore_Set_frame [OF s]
  show ?thesis
  proof (cases "Validate stamped")
    case (Some msg)
    then show ?thesis using run st by (auto simp add: SetPresence_unfold Let_def)
  next
    case None
    show ?thesis
    proof (cases sr)
      case None': None
      then show ?thesis using run st s None by (auto simp add: SetPresence_unfold Let_def)
    next
      case (Some err)
      then show ?thesis using run st s None f by (auto simp add: SetPresence_unfold Let_def)
    qed
  qed
qed

text \<open>
  C10. The store's \<open>GetMultiple\<close> always returns a nil error; its map holds exactly the
  requested ids whose own \<open>Get\<close> succeeds, so when every \<open>Get\<close> fails, for whatever
  reason, the result is the empty map with a nil error, the same as when every key is
  absent; and \<open>GetMultiplePresences\<close> over this store never returns an error.
\<close>

theorem kvStore_GetMultiple_never_fails:
  "snd (fst (kvStore_GetMultiple e w ids)) = None
   \<and> fst (fst (kvStore_GetMultiple e w ids)) =
       (\<lambda>uid. if uid \<in> set ids then store_lookup e w uid else None)
   \<and> ((\<forall>uid \<in> set ids. \<exists>err. fst (kvStore_Get e w uid) = Inl err) \<longrightarrow>
        fst (kvStore_GetMultiple e w ids) = (Map.empty, None))
   \<and> (\<forall>err. fst (GetMultiplePresences e w ids) \<noteq> Inl err)"
proof -
  have loop: "GetMultiple_loop e w Map.empty ids =
     ((\<lambda>uid. if uid \<in> set ids then store_lookup e w uid else None),
      w\<lparr>kv_log := kv_log w @ map (\<lambda>uid. KVGet (presenceKey uid)) ids\<rparr>)"
    by (auto simp add: GetMultiple_loop_eq fun_eq_iff)
  have a: "snd (fst (kvStore_GetMultiple e w ids)) = None"
    by (simp add: kvStore_GetMultiple_def split: prod.split)
  have b: "fst (fst (kvStore_GetMultiple e w ids)) =
       (\<lambda>uid. if uid \<in> set ids then store_lookup e w uid else None)"
    by (simp add: kvStore_GetMultiple_def loop)
  have c: "(\<forall>uid \<in> set ids. \<exists>err. fst (kvStore_Get e w uid) = Inl err) \<longrightarrow>
        fst (kvStore_GetMultiple e w ids) = (Map.empty, None)"
  proof
    assume h: "\<forall>uid \<in> set ids. \<exists>err. fst (kvStore_Get e w uid) = Inl err"
    have "(\<lambda>uid. if uid \<in> set ids then store_lookup e w uid else None) = Map.empty"
      using h by (auto simp add: fun_eq_iff store_lookup_def)
    then show "fst (kvStore_GetMultiple e w ids) = (Map.empty, None)"
      using a b by (simp add: prod_eq_iff)
  qed
  have d: "\<forall>err. fst (GetMultiplePresences e w ids) \<noteq> Inl err"
    by (simp add: GetMultiplePresences_def kvStore_GetMultiple_def Let_def
          split: prod.split)
  show ?thesis using a b c d by (intro conjI)
qed

end
